theory Spec2Isabelle
  imports Complex_Main "HOL-Library.Word"
begin

section \<open>FeatureFence playground server: the lint endpoint\<close>

text \<open>
  A shallow embedding of \<^verbatim>\<open>server.js\<close> (the helper \<^verbatim>\<open>toItems\<close> and the handler of
  \<^verbatim>\<open>POST /api/lint\<close>) and of \<^verbatim>\<open>eslint.config.mjs\<close>.

  Strings are \<^typ>\<open>string\<close>; a \<^typ>\<open>char\<close> stands for the UTF-16 code unit of the same
  number, so the model covers the strings whose code units are below 256 (Latin-1).
  The built-ins \<^verbatim>\<open>trim\<close> and \<^verbatim>\<open>toLowerCase\<close> are written out for that range.
\<close>

subsection \<open>JSON values and the JavaScript conversions the handler applies to them\<close>

text \<open>
  The parsed request body. \<open>JNum\<close> holds the safe integers, as a sign (\<open>True\<close> for
  negative) and a magnitude below \<open>2 ^ 53\<close>: every one is a double, and \<^verbatim>\<open>String\<close> prints it
  as its decimal digits (\<^verbatim>\<open>-0\<close> as \<^verbatim>\<open>0\<close>). \<open>JObj\<close> lists the own properties of a parsed
  object (keys distinct). The value \<^verbatim>\<open>undefined\<close> is \<open>None\<close> of \<open>json option\<close>.
\<close>

datatype json =
    JNull
  | JBool bool
  | JNum bool "53 word"
  | JStr string
  | JArr "json list"
  | JObj "(string \<times> json) list"

text \<open>What the handler can throw and what it catches.\<close>

record js_error =
  err_name :: string
  err_message :: string
  err_stack :: string

datatype exn =
    ToPrimitiveTypeError
  | ErrorObject js_error

text \<open>Truthiness, as \<^verbatim>\<open>||\<close> and \<^verbatim>\<open>!\<close> test it.\<close>

fun js_truthy :: "json \<Rightarrow> bool" where
  "js_truthy JNull = False"
| "js_truthy (JBool b) = b"
| "js_truthy (JNum neg n) = (n \<noteq> 0)"
| "js_truthy (JStr s) = (s \<noteq> [])"
| "js_truthy (JArr xs) = True"
| "js_truthy (JObj kvs) = True"

text \<open>
  Reading the property \<open>k\<close> of a value, for the two keys the handler destructures
  (\<^verbatim>\<open>language\<close> and \<^verbatim>\<open>code\<close>): neither is inherited from a prototype, so only a parsed
  object can have them.
\<close>

fun get_prop :: "json \<Rightarrow> string \<Rightarrow> json option" where
  "get_prop (JObj kvs) k = map_of kvs k"
| "get_prop v k = None"

text \<open>Decimal digits of a number.\<close>

definition digit_char :: "nat \<Rightarrow> char" where
  "digit_char d = char_of (48 + d)"

fun dec_nat :: "nat \<Rightarrow> string" where
  "dec_nat n = (if n < 10 then [digit_char n] else dec_nat (n div 10) @ [digit_char (n mod 10)])"

declare dec_nat.simps [simp del]

definition dec_num :: "bool \<Rightarrow> 53 word \<Rightarrow> string" where
  "dec_num neg n = (if neg \<and> n \<noteq> 0 then CHR ''-'' # dec_nat (unat n) else dec_nat (unat n))"

text \<open>
  \<^verbatim>\<open>String(v)\<close>. An array is joined with commas, \<^verbatim>\<open>null\<close> elements printing as the empty
  string. A plain object prints through \<^verbatim>\<open>Object.prototype.toString\<close>, unless an own
  property \<^verbatim>\<open>toString\<close> (never callable in parsed JSON) hides it: then the conversion
  throws a TypeError.
\<close>

fun js_String :: "json \<Rightarrow> exn + string"
  and js_join :: "json list \<Rightarrow> exn + string" where
  "js_String JNull = Inr ''null''"
| "js_String (JBool b) = Inr (if b then ''true'' else ''false'')"
| "js_String (JNum neg n) = Inr (dec_num neg n)"
| "js_String (JStr s) = Inr s"
| "js_String (JArr xs) = js_join xs"
| "js_String (JObj kvs) =
     (case map_of kvs ''toString'' of
        None \<Rightarrow> Inr ''[object Object]''
      | Some m \<Rightarrow> Inl ToPrimitiveTypeError)"
| "js_join [] = Inr []"
| "js_join (x # xs) =
     (case (if x = JNull then Inr [] else js_String x) of
        Inl e \<Rightarrow> Inl e
      | Inr s \<Rightarrow>
          (if xs = [] then Inr s
           else case js_join xs of
                  Inl e \<Rightarrow> Inl e
                | Inr t \<Rightarrow> Inr (s @ '','' @ t)))"

text \<open>\<^verbatim>\<open>String(e)\<close> of a caught exception: \<^verbatim>\<open>Error.prototype.toString\<close>.\<close>

definition error_toString :: "js_error \<Rightarrow> string" where
  "error_toString e =
     (if err_name e = [] then err_message e
      else if err_message e = [] then err_name e
      else err_name e @ '': '' @ err_message e)"

fun exn_String :: "exn \<Rightarrow> string" where
  "exn_String ToPrimitiveTypeError = ''TypeError: Cannot convert object to primitive value''"
| "exn_String (ErrorObject e) = error_toString e"

text \<open>\<^verbatim>\<open>trim\<close> and \<^verbatim>\<open>toLowerCase\<close> on code units below 256.\<close>

definition is_whitespace :: "char \<Rightarrow> bool" where
  "is_whitespace c = ((of_char c :: nat) \<in> {9, 10, 11, 12, 13, 32, 160})"

definition trim :: "string \<Rightarrow> string" where
  "trim s = rev (dropWhile is_whitespace (rev (dropWhile is_whitespace s)))"

definition lower_char :: "char \<Rightarrow> char" where
  "lower_char c =
     (let n = (of_char c :: nat)
      in if (65 \<le> n \<and> n \<le> 90) \<or> (192 \<le> n \<and> n \<le> 214) \<or> (216 \<le> n \<and> n \<le> 222)
         then char_of (n + 32) else c)"

definition toLowerCase :: "string \<Rightarrow> string" where
  "toLowerCase s = map lower_char s"

subsection \<open>The ESLint configuration (\<^verbatim>\<open>eslint.config.mjs\<close>)\<close>

record rule_options =
  mode :: string
  targets :: "string list"

record rule_entry =
  rule_name :: string
  rule_level :: string
  rule_opts :: rule_options

record language_options =
  ecmaVersion :: nat
  sourceType :: string

record eslint_config =
  languageOptions :: language_options
  plugins :: "string list"
  rules :: "rule_entry list"

definition config :: "eslint_config list" where
  "config =
     [\<lparr> languageOptions = \<lparr> ecmaVersion = 2022, sourceType = ''module'' \<rparr>,
        plugins = [''featurefence''],
        rules =
          [\<lparr> rule_name = ''featurefence/no-unsupported-feature'',
              rule_level = ''warn'',
              rule_opts = \<lparr> mode = ''baseline-or-targets'',
                            targets = [''>=0.5%'', ''last 2 versions'', ''not dead''] \<rparr> \<rparr>] \<rparr>]"

text \<open>
  \<^verbatim>\<open>Array.isArray(config) ? config[0] : config\<close>: the export is an array, so this is its
  first element (\<^verbatim>\<open>undefined\<close>, here \<open>None\<close>, for an empty array).
\<close>

definition overrideConfig :: "eslint_config option" where
  "overrideConfig = (case config of [] \<Rightarrow> None | c # cs \<Rightarrow> Some c)"

subsection \<open>Analyzer output and its normalization (\<^verbatim>\<open>toItems\<close>)\<close>

text \<open>
  One ESLint message. \<open>m_ruleId\<close> is \<open>None\<close> for \<^verbatim>\<open>null\<close>; the positions are \<open>None\<close> where
  the message has none.
\<close>

record lint_message =
  m_ruleId :: "string option"
  m_message :: string
  m_severity :: int
  m_line :: "int option"
  m_column :: "int option"
  m_endLine :: "int option"
  m_endColumn :: "int option"

text \<open>One ESLint result; \<open>messages\<close> is \<open>None\<close> when the property is missing.\<close>

record lint_result =
  messages :: "lint_message list option"

record location =
  line :: "int option"
  column :: "int option"
  endLine :: "int option"
  endColumn :: "int option"

record item =
  rule :: string
  message :: string
  severity :: string
  location :: location

record summary =
  level :: string
  errors :: nat
  warnings :: nat
  total_n :: nat

record report =
  summary :: summary
  items :: "item list"

text \<open>The callback of \<^verbatim>\<open>messages.map\<close>.\<close>

definition to_item :: "lint_message \<Rightarrow> item" where
  "to_item m =
     \<lparr> rule = (case m_ruleId m of
                  None \<Rightarrow> ''(no-rule)''
                | Some r \<Rightarrow> if r = [] then ''(no-rule)'' else r),
       message = m_message m,
       severity = (if m_severity m = 2 then ''error'' else ''warn''),
       location = \<lparr> line = m_line m, column = m_column m,
                     endLine = m_endLine m, endColumn = m_endColumn m \<rparr> \<rparr>"

text \<open>
  \<^verbatim>\<open>toItems(eslintResults)\<close>; the argument is \<open>None\<close> for \<^verbatim>\<open>undefined\<close> or \<^verbatim>\<open>null\<close>.
  \<open>r\<close> is \<^verbatim>\<open>eslintResults?.[0]\<close> and \<open>msgs\<close> is \<^verbatim>\<open>r?.messages || []\<close>.
\<close>

definition toItems :: "lint_result list option \<Rightarrow> report" where
  "toItems eslintResults =
     (let r = (case eslintResults of
                 None \<Rightarrow> None
               | Some [] \<Rightarrow> None
               | Some (x # xs) \<Rightarrow> Some x);
          msgs = (case r of
                    None \<Rightarrow> []
                  | Some x \<Rightarrow> (case messages x of None \<Rightarrow> [] | Some ms \<Rightarrow> ms));
          its = map to_item msgs;
          errorCount = length (filter (\<lambda>m. m_severity m = 2) msgs);
          warnCount = length (filter (\<lambda>m. m_severity m \<noteq> 2) msgs)
      in \<lparr> summary =
             \<lparr> level = (if errorCount \<noteq> 0 then ''error''
                         else if warnCount \<noteq> 0 then ''warn'' else ''ok''),
               errors = errorCount, warnings = warnCount, total_n = length msgs \<rparr>,
           items = its \<rparr>)"

subsection \<open>The handler of \<^verbatim>\<open>POST /api/lint\<close>\<close>

text \<open>
  The analyzer is the collaborator \<^verbatim>\<open>new ESLint({overrideConfig}).lintText(code, {filePath})\<close>:
  a function of the configuration, the source text and the file path that either throws
  or returns the result list.
\<close>

type_synonym analyzer =
  "eslint_config option \<Rightarrow> string \<Rightarrow> string \<Rightarrow> exn + lint_result list option"

datatype resp_body =
    ErrorBody string
  | ReportBody bool string summary "item list"
  | StatusBody bool string string real string

record response =
  status :: nat
  body :: resp_body

text \<open>The effect of a request: the response sent and what \<^verbatim>\<open>console.error\<close> printed.\<close>

record outcome =
  sent :: response
  logged :: "exn list"

text \<open>Line 204: \<^verbatim>\<open>String(language || "javascript").toLowerCase()\<close>.\<close>

definition effective_lang :: "json option \<Rightarrow> exn + string" where
  "effective_lang language =
     (case js_String (case language of
                        None \<Rightarrow> JStr ''javascript''
                      | Some v \<Rightarrow> if js_truthy v then v else JStr ''javascript'') of
        Inl e \<Rightarrow> Inl e
      | Inr s \<Rightarrow> Inr (toLowerCase s))"

text \<open>The \<^verbatim>\<open>catch\<close> block.\<close>

definition on_exception :: "exn \<Rightarrow> outcome" where
  "on_exception e =
     \<lparr> sent = \<lparr> status = 500, body = ErrorBody (exn_String e) \<rparr>, logged = [e] \<rparr>"

definition invalid_input :: outcome where
  "invalid_input =
     \<lparr> sent = \<lparr> status = 400, body = ErrorBody ''Missing 'code' (string)'' \<rparr>, logged = [] \<rparr>"

definition unsupported_language :: "string \<Rightarrow> outcome" where
  "unsupported_language lang =
     \<lparr> sent =
         \<lparr> status = 200,
           body = ReportBody True lang
                    \<lparr> level = ''warn'', errors = 0, warnings = 1, total_n = 1 \<rparr>
                    [\<lparr> rule = ''unsupported-language'',
                       message = ''Language '' @ [CHR 0x27] @ lang @ [CHR 0x27] @
                         '' is not yet supported by this server. Use 'javascript' to see ESLint-based results.'',
                       severity = ''warn'',
                       location = \<lparr> line = Some 1, column = Some 1,
                                     endLine = None, endColumn = None \<rparr> \<rparr>] \<rparr>,
       logged = [] \<rparr>"

text \<open>
  Line 199: \<^verbatim>\<open>const { language, code } = req.body || {}\<close>, from the parsed body (\<open>None\<close>
  when \<^verbatim>\<open>req.body\<close> is \<^verbatim>\<open>undefined\<close>). The property \<^verbatim>\<open>targets\<close> is never read.
\<close>

record request_fields =
  language :: "json option"
  code :: "json option"

definition destructure :: "json option \<Rightarrow> request_fields" where
  "destructure req_body =
     (let b = (case req_body of
                 None \<Rightarrow> JObj []
               | Some v \<Rightarrow> if js_truthy v then v else JObj [])
      in \<lparr> language = get_prop b ''language'', code = get_prop b ''code'' \<rparr>)"

text \<open>The handler: the \<^verbatim>\<open>try\<close> block, with every \<^verbatim>\<open>throw\<close> landing in \<open>on_exception\<close>.\<close>

definition lint_handler :: "analyzer \<Rightarrow> json option \<Rightarrow> outcome" where
  "lint_handler lintText req_body =
     (let f = destructure req_body
      in case code f of
           Some (JStr c) \<Rightarrow>
             if trim c = [] then invalid_input
             else (case effective_lang (language f) of
                     Inl e \<Rightarrow> on_exception e
                   | Inr lang \<Rightarrow>
                       if lang = ''javascript'' \<or> lang = ''js'' then
                         (case lintText overrideConfig c ''input.js'' of
                            Inl e \<Rightarrow> on_exception e
                          | Inr results \<Rightarrow>
                              (let r = toItems results
                               in \<lparr> sent = \<lparr> status = 200,
                                             body = ReportBody True lang (summary r) (items r) \<rparr>,
                                    logged = [] \<rparr>))
                       else unsupported_language lang)
         | _ \<Rightarrow> invalid_input)"

subsection \<open>The handler in the running process\<close>

text \<open>
  What a handler can read of the process at the moment it runs: the value of
  \<^verbatim>\<open>new Date().toISOString()\<close>, of \<^verbatim>\<open>process.uptime()\<close> and of
  \<^verbatim>\<open>process.env.npm_package_version\<close>, what \<^verbatim>\<open>console.error\<close> has printed so far, and
  the compatibility data that the plugin \<^verbatim>\<open>eslint-plugin-featurefence\<close> holds since its
  import. The plugin is not part of the repository: its data is a value of any type \<open>'x\<close>.
  \<^verbatim>\<open>server.js\<close> has no other state that outlives a request.
\<close>

record 'x process =
  now_iso :: string
  uptime :: real
  npm_package_version :: "string option"
  console :: "exn list"
  compat_index :: 'x

text \<open>
  The class \<^verbatim>\<open>ESLint\<close> as lines 207 to 210 use it: the constructor, which may throw, and
  \<^verbatim>\<open>lintText\<close> on an instance, which returns or throws and may change the instance (its
  caches). Both run the plugin and so read the compatibility data. \<open>'i\<close> is the state of
  an instance.
\<close>

record ('x, 'i) eslint_class =
  construct :: "'x \<Rightarrow> eslint_config option \<Rightarrow> exn + 'i"
  run_lintText :: "'x \<Rightarrow> 'i \<Rightarrow> string \<Rightarrow> string \<Rightarrow> (exn + lint_result list option) \<times> 'i"

text \<open>
  What one request does with the class: \<^verbatim>\<open>const eslint = new ESLint(...)\<close>, one call of
  \<^verbatim>\<open>eslint.lintText\<close>, and the instance is dropped when the handler returns.
\<close>

definition per_request :: "('x, 'i) eslint_class \<Rightarrow> 'x \<Rightarrow> analyzer" where
  "per_request E x cfg src file =
     (case construct E x cfg of
        Inl e \<Rightarrow> Inl e
      | Inr inst \<Rightarrow> fst (run_lintText E x inst src file))"

text \<open>The request object \<^verbatim>\<open>req\<close>, with the body as \<^verbatim>\<open>express.json\<close> parsed it.\<close>

record http_request =
  req_method :: string
  req_path :: string
  req_headers :: "(string \<times> string) list"
  req_body :: "json option"

text \<open>\<^verbatim>\<open>GET /api/status\<close> (lines 151 to 159), the handler that reads the clock.\<close>

definition status_route :: "'x process \<Rightarrow> http_request \<Rightarrow> response \<times> 'x process" where
  "status_route p req =
     (\<lparr> status = 200,
        body = StatusBody True ''FeatureFence Playground API'' (now_iso p) (uptime p)
                 (case npm_package_version p of
                    None \<Rightarrow> ''dev''
                  | Some v \<Rightarrow> if v = [] then ''dev'' else v) \<rparr>,
      p)"

text \<open>
  \<^verbatim>\<open>POST /api/lint\<close> (lines 197 to 231) in the process: the response sent, and the process
  with the caught exception printed.
\<close>

definition lint_route ::
  "('x, 'i) eslint_class \<Rightarrow> 'x process \<Rightarrow> http_request \<Rightarrow> response \<times> 'x process" where
  "lint_route E p req =
     (let out = lint_handler (per_request E (compat_index p)) (req_body req)
      in (sent out, p\<lparr> console := console p @ logged out \<rparr>))"

subsection \<open>Concrete analyzers and requests\<close>

text \<open>Inputs at which the theorems below are exercised.\<close>

definition sample_messages :: "lint_message list" where
  "sample_messages =
     [\<lparr> m_ruleId = None, m_message = ''Parsing error: Unexpected token'', m_severity = 2,
         m_line = Some 1, m_column = Some 5, m_endLine = None, m_endColumn = None \<rparr>,
      \<lparr> m_ruleId = Some ''featurefence/no-unsupported-feature'',
         m_message = ''document.startViewTransition is not supported by the configured targets'',
         m_severity = 1,
         m_line = Some 1, m_column = Some 1, m_endLine = Some 1, m_endColumn = Some 29 \<rparr>]"

definition sample_analyzer :: analyzer where
  "sample_analyzer cfg src path = Inr (Some [\<lparr> messages = Some sample_messages \<rparr>])"

definition sample_error :: js_error where
  "sample_error =
     \<lparr> err_name = ''Error'',
       err_message = ''Cannot find module /srv/app/node_modules/eslint-plugin-featurefence'',
       err_stack = ''Error: Cannot find module at Module._resolveFilename (node:internal/modules/cjs/loader:1048:15)'' \<rparr>"

definition failing_analyzer :: analyzer where
  "failing_analyzer cfg src path = Inl (ErrorObject sample_error)"

definition request :: "string \<Rightarrow> string \<Rightarrow> json option" where
  "request lang src = Some (JObj [(''language'', JStr lang), (''code'', JStr src)])"

definition request_with_targets :: "string \<Rightarrow> json" where
  "request_with_targets t =
     JObj [(''language'', JStr ''javascript''),
           (''code'', JStr ''document.startViewTransition(() => {});''),
           (''targets'', JStr t)]"

text \<open>
  An ESLint whose instances count the calls made on them, with a plugin whose data is the
  list of the features it reports.
\<close>

definition counting_eslint :: "(string list, nat) eslint_class" where
  "counting_eslint =
     \<lparr> construct = (\<lambda>x cfg. Inr 0),
       run_lintText = (\<lambda>x n src file.
         (Inr (Some [\<lparr> messages = Some (if n = 0 \<and> x \<noteq> [] then sample_messages else []) \<rparr>]),
          Suc n)) \<rparr>"

definition process_at_start :: "string list process" where
  "process_at_start =
     \<lparr> now_iso = ''2025-01-01T00:00:00.000Z'', uptime = 0,
       npm_package_version = None, console = [],
       compat_index = [''view-transitions''] \<rparr>"


definition first_call :: http_request where
  "first_call =
     \<lparr> req_method = ''POST'', req_path = ''/api/lint'',
       req_headers = [(''content-type'', ''application/json'')],
       req_body = Some (JObj [(''language'', JStr ''js''), (''code'', JStr ''let x = 1;''),
                              (''targets'', JStr ''defaults'')]) \<rparr>"


definition toString_language_request :: "json option" where
  "toString_language_request =
     Some (JObj [(''language'', JObj [(''toString'', JNum False 1)]), (''code'', JStr ''x'')])"

subsection \<open>What the handler computes, branch by branch\<close>

lemma length_filter_split:
  "length (filter P xs) + length (filter (\<lambda>x. \<not> P x) xs) = length xs"
  by (induction xs) auto

lemma toItems_counts:
  "total_n (summary (toItems rs)) = errors (summary (toItems rs)) + warnings (summary (toItems rs))
   \<and> errors (summary (toItems rs)) + warnings (summary (toItems rs)) = length (items (toItems rs))"
  by (simp add: toItems_def Let_def length_filter_split)

lemma lint_handler_cases:
  "lint_handler lintText rb = invalid_input
   \<or> (\<exists>e. lint_handler lintText rb = on_exception e)
   \<or> (\<exists>lang. lint_handler lintText rb = unsupported_language lang)
   \<or> (\<exists>lang rs. lint_handler lintText rb =
        \<lparr> sent = \<lparr> status = 200,
                    body = ReportBody True lang (summary (toItems rs)) (items (toItems rs)) \<rparr>,
          logged = [] \<rparr>)"
  by (auto simp: lint_handler_def Let_def split: option.splits json.splits sum.splits)

lemma trim_empty_iff: "(trim s = []) = (\<forall>ch\<in>set s. is_whitespace ch)"
proof -
  have "(trim s = []) = (dropWhile is_whitespace (rev (dropWhile is_whitespace s)) = [])"
    by (simp add: trim_def)
  also have "\<dots> = (\<forall>ch\<in>set (dropWhile is_whitespace s). is_whitespace ch)"
    by (simp add: dropWhile_eq_Nil_conv)
  also have "\<dots> = (\<forall>ch\<in>set s. is_whitespace ch)"
  proof
    assume a: "\<forall>ch\<in>set (dropWhile is_whitespace s). is_whitespace ch"
    show "\<forall>ch\<in>set s. is_whitespace ch"
    proof (cases "dropWhile is_whitespace s")
      case Nil
      then show ?thesis by (simp add: dropWhile_eq_Nil_conv)
    next
      case (Cons x xs)
      then have "\<not> is_whitespace x" using hd_dropWhile [of is_whitespace s] by simp
      moreover have "is_whitespace x" using a Cons by simp
      ultimately show ?thesis by simp
    qed
  next
    assume "\<forall>ch\<in>set s. is_whitespace ch"
    then show "\<forall>ch\<in>set (dropWhile is_whitespace s). is_whitespace ch"
      using set_dropWhileD by fastforce
  qed
  finally show ?thesis .
qed

lemma destructure_Some:
  "destructure (Some b) = \<lparr> language = get_prop b ''language'', code = get_prop b ''code'' \<rparr>"
  by (cases b) (simp_all add: destructure_def)

lemma lint_handler_fields:
  "destructure rb1 = destructure rb2 \<Longrightarrow> lint_handler lintText rb1 = lint_handler lintText rb2"
  by (simp add: lint_handler_def)

lemma lint_handler_valid:
  "code (destructure rb) = Some (JStr c) \<Longrightarrow> trim c \<noteq> [] \<Longrightarrow>
   lint_handler lintText rb =
     (case effective_lang (language (destructure rb)) of
        Inl e \<Rightarrow> on_exception e
      | Inr lang \<Rightarrow>
          if lang = ''javascript'' \<or> lang = ''js'' then
            (case lintText overrideConfig c ''input.js'' of
               Inl e \<Rightarrow> on_exception e
             | Inr results \<Rightarrow>
                 \<lparr> sent = \<lparr> status = 200,
                             body = ReportBody True lang (summary (toItems results))
                                      (items (toItems results)) \<rparr>,
                   logged = [] \<rparr>)
          else unsupported_language lang)"
  by (auto simp: lint_handler_def Let_def split: sum.splits)

lemma lint_handler_invalid:
  "(\<forall>c. code (destructure rb) = Some (JStr c) \<longrightarrow> trim c = []) \<Longrightarrow>
   lint_handler lintText rb = invalid_input"
  by (auto simp: lint_handler_def Let_def split: option.splits json.splits)


lemma lint_route_response:
  "fst (lint_route E p req) =
     sent (lint_handler (per_request E (compat_index p)) (req_body req))"
  by (simp add: lint_route_def Let_def)


text \<open>The process can be read: the status handler answers differently at different times.\<close>

lemma status_route_reads_clock:
  "now_iso p1 \<noteq> now_iso p2 \<Longrightarrow> fst (status_route p1 req) \<noteq> fst (status_route p2 req)"
  by (simp add: status_route_def)

text \<open>
  The lint handler reads the compatibility data, through ESLint: with other data the same
  request can get another response.
\<close>

lemma lint_route_reads_index:
  "fst (lint_route counting_eslint (process_at_start\<lparr> compat_index := [] \<rparr>) first_call) \<noteq>
   fst (lint_route counting_eslint process_at_start first_call)"
proof -
  have "sent (lint_handler (per_request counting_eslint []) (req_body first_call)) \<noteq>
        sent (lint_handler (per_request counting_eslint [''view-transitions''])
                (req_body first_call))"
    by code_simp
  then show ?thesis
    by (simp add: lint_route_response process_at_start_def)
qed

subsection \<open>Claims\<close>

text \<open>
  C1. Every report the lint endpoint sends, from the JavaScript analyzer branch or from the
  unsupported-language branch, has \<open>summary.total = summary.errors + summary.warnings\<close>, and
  both equal the number of items.
\<close>

theorem lint_report_counts:
  "body (sent (lint_handler lintText rb)) = ReportBody ok lang sm its \<Longrightarrow>
   total_n sm = errors sm + warnings sm \<and> errors sm + warnings sm = length its"
  using lint_handler_cases [of lintText rb] toItems_counts
  by (auto simp: invalid_input_def on_exception_def unsupported_language_def)

theorem lint_report_counts_witness:
  "body (sent (lint_handler sample_analyzer (request ''JavaScript'' ''x''))) =
     ReportBody True ''javascript''
       \<lparr> level = ''error'', errors = 1, warnings = 1, total_n = 2 \<rparr>
       (map to_item sample_messages)
   \<and> total_n \<lparr> level = ''error'', errors = 1, warnings = 1, total_n = 2 \<rparr> = 1 + 1
   \<and> 1 + 1 = length (map to_item sample_messages)
   \<and> body (sent (lint_handler sample_analyzer (request ''css'' ''x''))) =
     ReportBody True ''css''
       \<lparr> level = ''warn'', errors = 0, warnings = 1, total_n = 1 \<rparr>
       [\<lparr> rule = ''unsupported-language'',
          message = ''Language '' @ [CHR 0x27] @ ''css'' @ [CHR 0x27] @
            '' is not yet supported by this server. Use 'javascript' to see ESLint-based results.'',
          severity = ''warn'',
          location = \<lparr> line = Some 1, column = Some 1, endLine = None, endColumn = None \<rparr> \<rparr>]
   \<and> total_n \<lparr> level = ''warn'', errors = 0, warnings = 1, total_n = 1 \<rparr> = 0 + 1"
proof -
  have h: "body (sent (lint_handler sample_analyzer (request ''JavaScript'' ''x''))) =
     ReportBody True ''javascript''
       \<lparr> level = ''error'', errors = 1, warnings = 1, total_n = 2 \<rparr>
       (map to_item sample_messages)"
    by code_simp
  have u: "body (sent (lint_handler sample_analyzer (request ''css'' ''x''))) =
     ReportBody True ''css''
       \<lparr> level = ''warn'', errors = 0, warnings = 1, total_n = 1 \<rparr>
       [\<lparr> rule = ''unsupported-language'',
          message = ''Language '' @ [CHR 0x27] @ ''css'' @ [CHR 0x27] @
            '' is not yet supported by this server. Use 'javascript' to see ESLint-based results.'',
          severity = ''warn'',
          location = \<lparr> line = Some 1, column = Some 1, endLine = None, endColumn = None \<rparr> \<rparr>]"
    by code_simp
  show ?thesis
    using h u lint_report_counts [OF h] lint_report_counts [OF u] by simp
qed

text \<open>
  C2, as stated, fails: a request with valid code whose language is the object
  \<^verbatim>\<open>{"toString": 1}\<close> is not a JavaScript request, and it fails. \<^verbatim>\<open>String(language)\<close> at
  line 204 throws a TypeError and the answer is status 500 with an error body.
\<close>

theorem unsupported_language_counterexample:
  "code (destructure toString_language_request) = Some (JStr ''x'')
   \<and> trim ''x'' = ''x''
   \<and> language (destructure toString_language_request) = Some (JObj [(''toString'', JNum False 1)])
   \<and> sent (lint_handler sample_analyzer toString_language_request) =
       \<lparr> status = 500,
         body = ErrorBody ''TypeError: Cannot convert object to primitive value'' \<rparr>"
  by code_simp

text \<open>
  C2, amended. A request that passes the code validation, whose language \<^verbatim>\<open>String\<close> converts
  without throwing (as it does every string), and whose lowercased language is neither
  \<open>javascript\<close> nor \<open>js\<close>, does not fail: the response has status 200 and is a report with
  exactly one item, of rule \<open>unsupported-language\<close> and severity \<open>warn\<close>, and the summary
  level is \<open>warn\<close>.
\<close>

theorem unsupported_language_report:
  assumes "code (destructure rb) = Some (JStr c)" and "trim c \<noteq> []"
    and "effective_lang (language (destructure rb)) = Inr lang"
    and "lang \<noteq> ''javascript''" and "lang \<noteq> ''js''"
  shows "\<exists>it. lint_handler lintText rb =
            \<lparr> sent = \<lparr> status = 200,
                        body = ReportBody True lang
                                 \<lparr> level = ''warn'', errors = 0, warnings = 1, total_n = 1 \<rparr> [it] \<rparr>,
              logged = [] \<rparr>
          \<and> rule it = ''unsupported-language'' \<and> severity it = ''warn''"
  using assms by (simp add: lint_handler_valid unsupported_language_def)

theorem unsupported_language_report_witness:
  "code (destructure (request ''Brainfuck'' ''+++.'')) = Some (JStr ''+++.'')
   \<and> trim ''+++.'' \<noteq> []
   \<and> effective_lang (language (destructure (request ''Brainfuck'' ''+++.''))) = Inr ''brainfuck''
   \<and> (\<exists>it. lint_handler sample_analyzer (request ''Brainfuck'' ''+++.'') =
            \<lparr> sent = \<lparr> status = 200,
                        body = ReportBody True ''brainfuck''
                                 \<lparr> level = ''warn'', errors = 0, warnings = 1, total_n = 1 \<rparr> [it] \<rparr>,
              logged = [] \<rparr>
          \<and> rule it = ''unsupported-language'' \<and> severity it = ''warn'')"
proof -
  have h1: "code (destructure (request ''Brainfuck'' ''+++.'')) = Some (JStr ''+++.'')"
    by code_simp
  have h2: "trim ''+++.'' \<noteq> []"
    by code_simp
  have h3: "effective_lang (language (destructure (request ''Brainfuck'' ''+++.''))) = Inr ''brainfuck''"
    by code_simp
  have h4: "''brainfuck'' \<noteq> ''javascript''" and h5: "''brainfuck'' \<noteq> ''js''"
    by simp_all
  show ?thesis
    using h1 h2 h3 unsupported_language_report [OF h1 h2 h3 h4 h5, of sample_analyzer]
    by simp
qed

text \<open>
  C3. When the code field is absent, is not a string, or holds only whitespace (the empty
  string included), the response is status 400 with an error body, which is no report;
  when the code field is a string with a non-whitespace character, the response is not a
  400.
\<close>

theorem code_validation:
  "((\<forall>c. code (destructure rb) \<noteq> Some (JStr c))
      \<or> (\<exists>c. code (destructure rb) = Some (JStr c) \<and> (\<forall>ch\<in>set c. is_whitespace ch))
     \<longrightarrow> sent (lint_handler lintText rb) =
           \<lparr> status = 400, body = ErrorBody ''Missing 'code' (string)'' \<rparr>)
   \<and> ((\<exists>c. code (destructure rb) = Some (JStr c) \<and> (\<exists>ch\<in>set c. \<not> is_whitespace ch))
     \<longrightarrow> status (sent (lint_handler lintText rb)) \<noteq> 400)"
proof (intro conjI impI)
  assume "(\<forall>c. code (destructure rb) \<noteq> Some (JStr c))
      \<or> (\<exists>c. code (destructure rb) = Some (JStr c) \<and> (\<forall>ch\<in>set c. is_whitespace ch))"
  then have "\<forall>c. code (destructure rb) = Some (JStr c) \<longrightarrow> trim c = []"
    by (auto simp: trim_empty_iff)
  then have "lint_handler lintText rb = invalid_input"
    by (rule lint_handler_invalid)
  then show "sent (lint_handler lintText rb) =
           \<lparr> status = 400, body = ErrorBody ''Missing 'code' (string)'' \<rparr>"
    by (simp add: invalid_input_def)
next
  assume "\<exists>c. code (destructure rb) = Some (JStr c) \<and> (\<exists>ch\<in>set c. \<not> is_whitespace ch)"
  then obtain c where c: "code (destructure rb) = Some (JStr c)" and "trim c \<noteq> []"
    by (auto simp: trim_empty_iff)
  then show "status (sent (lint_handler lintText rb)) \<noteq> 400"
    by (simp add: lint_handler_valid on_exception_def unsupported_language_def
        split: sum.splits)
qed

theorem code_validation_witness:
  "sent (lint_handler sample_analyzer (Some (JObj [(''language'', JStr ''js'')]))) =
     \<lparr> status = 400, body = ErrorBody ''Missing 'code' (string)'' \<rparr>
   \<and> sent (lint_handler sample_analyzer (Some (JObj [(''code'', JNum False 42)]))) =
     \<lparr> status = 400, body = ErrorBody ''Missing 'code' (string)'' \<rparr>
   \<and> sent (lint_handler sample_analyzer (Some (JObj [(''code'', JStr [CHR '' '', CHR 0x09, CHR 0x0A])]))) =
     \<lparr> status = 400, body = ErrorBody ''Missing 'code' (string)'' \<rparr>
   \<and> status (sent (lint_handler sample_analyzer (request ''js'' '' x ''))) \<noteq> 400"
proof -
  have a: "\<forall>c. code (destructure (Some (JObj [(''language'', JStr ''js'')]))) \<noteq> Some (JStr c)"
    by (simp add: destructure_def)
  have b: "\<forall>c. code (destructure (Some (JObj [(''code'', JNum False 42)]))) \<noteq> Some (JStr c)"
    by (simp add: destructure_def)
  have c: "\<exists>c. code (destructure (Some (JObj [(''code'', JStr [CHR '' '', CHR 0x09, CHR 0x0A])]))) = Some (JStr c)
            \<and> (\<forall>ch\<in>set c. is_whitespace ch)"
    by (simp add: destructure_def is_whitespace_def)
  have d: "\<exists>c. code (destructure (request ''js'' '' x '')) = Some (JStr c)
            \<and> (\<exists>ch\<in>set c. \<not> is_whitespace ch)"
    by (simp add: destructure_def request_def is_whitespace_def)
  show ?thesis
    using a b c d
      code_validation [of "Some (JObj [(''language'', JStr ''js'')])" sample_analyzer]
      code_validation [of "Some (JObj [(''code'', JNum False 42)])" sample_analyzer]
      code_validation [of "Some (JObj [(''code'', JStr [CHR '' '', CHR 0x09, CHR 0x0A])])" sample_analyzer]
      code_validation [of "request ''js'' '' x ''" sample_analyzer]
    by blast
qed

text \<open>
  C4. The claim asks that the \<^verbatim>\<open>targets\<close> of the request decide the feature-compatibility
  findings: one finding when they include a runtime below the supporting version, none
  when they do not. The handler never reads \<^verbatim>\<open>targets\<close>: for every analyzer, the request for
  \<^verbatim>\<open>document.startViewTransition\<close> with targets \<^verbatim>\<open>chrome 100\<close> and the same request with
  targets \<^verbatim>\<open>chrome 120\<close> have the same outcome, so the findings cannot differ.
\<close>

theorem targets_ignored_at_feature_request:
  "lint_handler lintText (Some (request_with_targets ''chrome 100'')) =
   lint_handler lintText (Some (request_with_targets ''chrome 120''))"
  by (rule lint_handler_fields) (simp add: destructure_Some request_with_targets_def)

text \<open>
  C5, as stated, fails: when the analyzer throws, the body of the 500 response is not a
  generic message but \<^verbatim>\<open>String(e)\<close>, which holds the message of the exception.
\<close>

theorem analyzer_failure_counterexample:
  "sent (lint_handler failing_analyzer (request ''javascript'' ''let x = 1;'')) =
     \<lparr> status = 500, body = ErrorBody (''Error: '' @ err_message sample_error) \<rparr>
   \<and> err_message sample_error =
       ''Cannot find module /srv/app/node_modules/eslint-plugin-featurefence''"
  by code_simp

text \<open>
  C5, amended. When the analyzer throws the error \<open>e\<close>, the response is status 500 with the
  body \<^verbatim>\<open>{error: String(e)}\<close>: the name and the message of \<open>e\<close>, joined by a colon (only one
  of them when the other is empty). The stack of \<open>e\<close> is not part of the response; \<open>e\<close> is
  logged.
\<close>

theorem analyzer_failure_response:
  assumes "code (destructure rb) = Some (JStr c)" and "trim c \<noteq> []"
    and "effective_lang (language (destructure rb)) = Inr lang"
    and "lang = ''javascript'' \<or> lang = ''js''"
    and "lintText overrideConfig c ''input.js'' = Inl (ErrorObject e)"
  shows "lint_handler lintText rb =
           \<lparr> sent = \<lparr> status = 500,
                       body = ErrorBody
                                (if err_name e = [] then err_message e
                                 else if err_message e = [] then err_name e
                                 else err_name e @ '': '' @ err_message e) \<rparr>,
             logged = [ErrorObject e] \<rparr>"
  using assms by (auto simp: lint_handler_valid on_exception_def error_toString_def)

theorem analyzer_failure_response_witness:
  "code (destructure (request ''javascript'' ''let x = 1;'')) = Some (JStr ''let x = 1;'')
   \<and> trim ''let x = 1;'' \<noteq> []
   \<and> effective_lang (language (destructure (request ''javascript'' ''let x = 1;''))) = Inr ''javascript''
   \<and> failing_analyzer overrideConfig ''let x = 1;'' ''input.js'' = Inl (ErrorObject sample_error)
   \<and> lint_handler failing_analyzer (request ''javascript'' ''let x = 1;'') =
       \<lparr> sent = \<lparr> status = 500,
                   body = ErrorBody
                     ''Error: Cannot find module /srv/app/node_modules/eslint-plugin-featurefence'' \<rparr>,
         logged = [ErrorObject sample_error] \<rparr>"
proof -
  have h1: "code (destructure (request ''javascript'' ''let x = 1;'')) = Some (JStr ''let x = 1;'')"
    by code_simp
  have h2: "trim ''let x = 1;'' \<noteq> []"
    by code_simp
  have h3: "effective_lang (language (destructure (request ''javascript'' ''let x = 1;''))) = Inr ''javascript''"
    by code_simp
  have h4: "''javascript'' = ''javascript'' \<or> ''javascript'' = ''js''"
    by simp
  have h5: "failing_analyzer overrideConfig ''let x = 1;'' ''input.js'' = Inl (ErrorObject sample_error)"
    by (simp add: failing_analyzer_def)
  show ?thesis
    using h1 h2 h3 h4 h5
      analyzer_failure_response [where rb = "request ''javascript'' ''let x = 1;''"
        and c = "''let x = 1;''" and lang = "''javascript''"
        and lintText = failing_analyzer and e = sample_error]
    by (simp add: sample_error_def)
qed

text \<open>
  C6. For every analyzer result passed to \<^verbatim>\<open>toItems\<close>, the level of the summary is \<open>error\<close> when
  the error count is positive, else \<open>warn\<close> when the warning count is positive, else \<open>ok\<close>.
  The two counts are the numbers of items of severity \<open>error\<close> and \<open>warn\<close>.
\<close>

theorem summary_level:
  "level (summary (toItems rs)) =
     (if 0 < errors (summary (toItems rs)) then ''error''
      else if 0 < warnings (summary (toItems rs)) then ''warn'' else ''ok'')
   \<and> errors (summary (toItems rs)) =
       length (filter (\<lambda>i. severity i = ''error'') (items (toItems rs)))
   \<and> warnings (summary (toItems rs)) =
       length (filter (\<lambda>i. severity i = ''warn'') (items (toItems rs)))"
  by (simp add: toItems_def Let_def to_item_def filter_map comp_def)

theorem summary_level_witness:
  "level (summary (toItems (Some [\<lparr> messages = Some sample_messages \<rparr>]))) = ''error''
   \<and> level (summary (toItems (Some [\<lparr> messages = Some (tl sample_messages) \<rparr>]))) = ''warn''
   \<and> level (summary (toItems (Some [\<lparr> messages = Some [] \<rparr>]))) = ''ok''"
proof -
  have a: "errors (summary (toItems (Some [\<lparr> messages = Some sample_messages \<rparr>]))) = 1"
    by code_simp
  have b: "errors (summary (toItems (Some [\<lparr> messages = Some (tl sample_messages) \<rparr>]))) = 0
           \<and> warnings (summary (toItems (Some [\<lparr> messages = Some (tl sample_messages) \<rparr>]))) = 1"
    by code_simp
  have c: "errors (summary (toItems (Some [\<lparr> messages = Some [] \<rparr>]))) = 0
           \<and> warnings (summary (toItems (Some [\<lparr> messages = Some [] \<rparr>]))) = 0"
    by code_simp
  show ?thesis
    using a b c
      summary_level [of "Some [\<lparr> messages = Some sample_messages \<rparr>]"]
      summary_level [of "Some [\<lparr> messages = Some (tl sample_messages) \<rparr>]"]
      summary_level [of "Some [\<lparr> messages = Some [] \<rparr>]"]
    by simp
qed



text \<open>
  C8. Two request bodies that agree on every property but \<^verbatim>\<open>targets\<close> have the same
  outcome. The handler calls the analyzer only with the configuration of
  \<^verbatim>\<open>eslint.config.mjs\<close>, whose one rule has the targets \<^verbatim>\<open>>=0.5%\<close>, \<^verbatim>\<open>last 2 versions\<close>,
  \<^verbatim>\<open>not dead\<close>.
\<close>

theorem lint_ignores_targets:
  "((\<forall>k. k \<noteq> ''targets'' \<longrightarrow> get_prop b1 k = get_prop b2 k) \<longrightarrow>
     lint_handler lintText (Some b1) = lint_handler lintText (Some b2))
   \<and> lint_handler lintText rb = lint_handler (\<lambda>cfg. lintText overrideConfig) rb
   \<and> (\<exists>c. overrideConfig = Some c \<and>
         map (\<lambda>r. targets (rule_opts r)) (rules c) =
           [[''>=0.5%'', ''last 2 versions'', ''not dead'']])"
proof (intro conjI impI)
  assume a: "\<forall>k. k \<noteq> ''targets'' \<longrightarrow> get_prop b1 k = get_prop b2 k"
  have "get_prop b1 ''language'' = get_prop b2 ''language''"
    using a by simp
  moreover have "get_prop b1 ''code'' = get_prop b2 ''code''"
    using a by simp
  ultimately show "lint_handler lintText (Some b1) = lint_handler lintText (Some b2)"
    by (intro lint_handler_fields) (simp add: destructure_Some)
next
  show "lint_handler lintText rb = lint_handler (\<lambda>cfg. lintText overrideConfig) rb"
    by (simp add: lint_handler_def)
next
  show "\<exists>c. overrideConfig = Some c \<and>
         map (\<lambda>r. targets (rule_opts r)) (rules c) =
           [[''>=0.5%'', ''last 2 versions'', ''not dead'']]"
    by (simp add: overrideConfig_def config_def)
qed

theorem lint_ignores_targets_witness:
  "get_prop (request_with_targets ''ie 11'') ''targets'' \<noteq>
     get_prop (request_with_targets ''last 1 chrome version'') ''targets''
   \<and> lint_handler sample_analyzer (Some (request_with_targets ''ie 11'')) =
       lint_handler sample_analyzer (Some (request_with_targets ''last 1 chrome version''))"
proof -
  have h: "\<forall>k. k \<noteq> ''targets'' \<longrightarrow>
        get_prop (request_with_targets ''ie 11'') k = get_prop (request_with_targets ''last 1 chrome version'') k"
    by (simp add: request_with_targets_def)
  have d: "get_prop (request_with_targets ''ie 11'') ''targets'' \<noteq>
     get_prop (request_with_targets ''last 1 chrome version'') ''targets''"
    by (simp add: request_with_targets_def)
  show ?thesis
    using h d lint_ignores_targets [of "request_with_targets ''ie 11''"
        "request_with_targets ''last 1 chrome version''" sample_analyzer]
    by blast
qed



text \<open>
  C10. \<^verbatim>\<open>toItems\<close> reads the first result only: the results after it do not change the
  report, whose items are the messages of the first result, in order. For a missing or an
  empty result list the report is level \<open>ok\<close> with all counts zero and no items. A message
  whose rule id is \<^verbatim>\<open>null\<close> gets the rule \<open>(no-rule)\<close>.
\<close>

theorem toItems_first_result_only:
  "toItems (Some (r # rs)) = toItems (Some [r])
   \<and> toItems None =
       \<lparr> summary = \<lparr> level = ''ok'', errors = 0, warnings = 0, total_n = 0 \<rparr>, items = [] \<rparr>
   \<and> toItems (Some []) =
       \<lparr> summary = \<lparr> level = ''ok'', errors = 0, warnings = 0, total_n = 0 \<rparr>, items = [] \<rparr>
   \<and> items (toItems (Some (\<lparr> messages = Some ms \<rparr> # rs))) = map to_item ms
   \<and> (m_ruleId m = None \<longrightarrow> rule (to_item m) = ''(no-rule)'')"
  by (simp add: toItems_def to_item_def Let_def)

theorem toItems_first_result_only_witness:
  "m_ruleId (hd sample_messages) = None
   \<and> rule (to_item (hd sample_messages)) = ''(no-rule)''
   \<and> toItems (Some [\<lparr> messages = Some [] \<rparr>, \<lparr> messages = Some sample_messages \<rparr>]) =
       \<lparr> summary = \<lparr> level = ''ok'', errors = 0, warnings = 0, total_n = 0 \<rparr>, items = [] \<rparr>"
proof -
  have h: "m_ruleId (hd sample_messages) = None"
    by (simp add: sample_messages_def)
  have e: "toItems (Some [\<lparr> messages = Some [] \<rparr>]) =
       \<lparr> summary = \<lparr> level = ''ok'', errors = 0, warnings = 0, total_n = 0 \<rparr>, items = [] \<rparr>"
    by code_simp
  show ?thesis
    using h e
      toItems_first_result_only [where m = "hd sample_messages" and r = "\<lparr> messages = Some [] \<rparr>"
        and rs = "[\<lparr> messages = Some sample_messages \<rparr>]"]
    by simp
qed

end
